theory Spec2Isabelle
  imports Main "HOL-Library.AList"
begin

section \<open>JavaScript values and the store\<close>

text \<open>
  Objects have identity: \<^verbatim>\<open>MediaType.ts\<close> writes to the object the sampler returned and
  hands that same object to the patcher and to the example. A value is therefore a
  primitive or a reference, and the objects live in a store, a list addressed by
  position; an object is allocated by appending it. Numbers are kept as integers: no
  operation below computes with them.
\<close>

type_synonym addr = nat

datatype jsvalue =
    JUndefined
  | JNull
  | JBool bool
  | JNum int
  | JStr string
  | JRef addr

text \<open>
  An object of the store is an ordinary object, given by its own properties, or an array,
  given by its elements (\<open>None\<close> is a hole) and its other own properties. Objects are
  extensible, their properties are writable data properties, and their prototypes are
  \<^verbatim>\<open>Object.prototype\<close> and \<^verbatim>\<open>Array.prototype\<close>. The list of properties is looked up by
  name; its order is not the enumeration order of the runtime.
\<close>

datatype jsobject =
    JObject "(string \<times> jsvalue) list"
  | JArray "jsvalue option list" "(string \<times> jsvalue) list"

text \<open>\<^verbatim>\<open>typeof v === 'object' && v\<close>: objects and arrays, but not \<^verbatim>\<open>null\<close>.\<close>

fun isObject :: "jsvalue \<Rightarrow> bool" where
  "isObject (JRef a) = True"
| "isObject v = False"

text \<open>The truthiness of a value, as \<^verbatim>\<open>&&\<close> and \<^verbatim>\<open>if\<close> test it.\<close>

fun truthy :: "jsvalue \<Rightarrow> bool" where
  "truthy JUndefined = False"
| "truthy JNull = False"
| "truthy (JBool b) = b"
| "truthy (JNum n) = (n \<noteq> 0)"
| "truthy (JStr s) = (s \<noteq> [])"
| "truthy (JRef a) = True"

text \<open>
  A property name is an array index when it is the canonical decimal numeral of an
  integer below \<open>2^32 - 1\<close>: digits only, and no leading zero except in \<^verbatim>\<open>0\<close> itself.
\<close>

definition digitOf :: "char \<Rightarrow> nat option" where
  "digitOf ch =
     (if ch = CHR ''0'' then Some 0 else if ch = CHR ''1'' then Some 1
      else if ch = CHR ''2'' then Some 2 else if ch = CHR ''3'' then Some 3
      else if ch = CHR ''4'' then Some 4 else if ch = CHR ''5'' then Some 5
      else if ch = CHR ''6'' then Some 6 else if ch = CHR ''7'' then Some 7
      else if ch = CHR ''8'' then Some 8 else if ch = CHR ''9'' then Some 9
      else None)"

fun decimal :: "nat \<Rightarrow> string \<Rightarrow> nat option" where
  "decimal n [] = Some n"
| "decimal n (ch # cs) =
     (case digitOf ch of None \<Rightarrow> None | Some d \<Rightarrow> decimal (10 * n + d) cs)"

definition arrayIndex :: "string \<Rightarrow> nat option" where
  "arrayIndex k =
     (case k of
        [] \<Rightarrow> None
      | ch # cs \<Rightarrow>
          if ch = CHR ''0'' \<and> cs \<noteq> [] then None
          else (case decimal 0 k of
                  None \<Rightarrow> None
                | Some n \<Rightarrow> if n < 4294967295 then Some n else None))"

text \<open>The own property \<open>k\<close> of an object, as \<^verbatim>\<open>hasOwnProperty\<close> and a read see it.\<close>

fun getOwn :: "jsobject \<Rightarrow> string \<Rightarrow> jsvalue option" where
  "getOwn (JObject ps) k = map_of ps k"
| "getOwn (JArray es ps) k =
     (case arrayIndex k of
        Some i \<Rightarrow> (if i < length es then es ! i else None)
      | None \<Rightarrow> if k = ''length'' then Some (JNum (int (length es))) else map_of ps k)"

text \<open>
  The assignment \<^verbatim>\<open>obj[k] = s\<close> of a string \<open>s\<close>, the one kind of assignment
  \<^verbatim>\<open>MediaType.ts\<close> makes to a sample.
  \<^item> The name \<^verbatim>\<open>__proto__\<close>, unless the object has it as an own property, is the accessor
    inherited from \<^verbatim>\<open>Object.prototype\<close>: assigning a string to it changes nothing.
  \<^item> On an array, an index sets that element, extending the array with holes when it lies
    beyond the end; \<^verbatim>\<open>length\<close> truncates or extends the array when the string converts
    to an array length, and throws \<^verbatim>\<open>RangeError\<close> when it does not (the result \<open>None\<close>).
    The conversion of the runtime (\<^verbatim>\<open>ToNumber\<close>, then the test for an unsigned 32-bit
    integer) is the parameter \<open>toLength\<close>.
  \<^item> Any other name sets or adds an own property.
\<close>

definition putNamed :: "(string \<times> jsvalue) list \<Rightarrow> string \<Rightarrow> jsvalue \<Rightarrow> (string \<times> jsvalue) list" where
  "putNamed ps k v =
     (if k = ''__proto__'' \<and> map_of ps k = None then ps else AList.update k v ps)"

fun assignString :: "(string \<Rightarrow> nat option) \<Rightarrow> jsobject \<Rightarrow> string \<Rightarrow> string \<Rightarrow> jsobject option" where
  "assignString toLength (JObject ps) k s = Some (JObject (putNamed ps k (JStr s)))"
| "assignString toLength (JArray es ps) k s =
     (case arrayIndex k of
        Some i \<Rightarrow>
          Some (JArray (if i < length es then es[i := Some (JStr s)]
                        else es @ replicate (i - length es) None @ [Some (JStr s)]) ps)
      | None \<Rightarrow>
          if k = ''length''
          then (case toLength s of
                  None \<Rightarrow> None
                | Some n \<Rightarrow> Some (JArray (take n es @ replicate (n - length es) None) ps))
          else Some (JArray es (putNamed ps k (JStr s))))"

text \<open>
  The state a read runs in: the store, and \<open>outside\<close>, everything else the collaborators
  read and change (the selection cells, the dependencies the reactive layer records).
\<close>

record 'w state =
  heap :: "jsobject list"
  outside :: 'w

text \<open>\<^verbatim>\<open>v[k]\<close> read as an own property, for a value \<open>v\<close> in a store.\<close>

definition propOf :: "jsobject list \<Rightarrow> addr \<Rightarrow> string \<Rightarrow> jsvalue option" where
  "propOf h a k = (if a < length h then getOwn (h ! a) k else None)"


text \<open>What a read can throw: the error the sampler raised, or the \<^verbatim>\<open>RangeError\<close> above.\<close>

datatype 'e thrown = SamplerError 'e | RangeError

text \<open>
  \<^verbatim>\<open>v[k] = s\<close> in a state, for a value \<open>v\<close> that passed the test \<open>isObject\<close>: the object
  is changed in place, so every holder of the reference sees the change. A reference is
  to an object of the store; for an address beyond the store nothing is written.
\<close>

definition writeProp ::
  "(string \<Rightarrow> nat option) \<Rightarrow> jsvalue \<Rightarrow> string \<Rightarrow> string \<Rightarrow> 'w state \<Rightarrow> 'e thrown + 'w state" where
  "writeProp toLength v k s st =
     (case v of
        JRef a \<Rightarrow>
          if a < length (heap st)
          then (case assignString toLength (heap st ! a) k s of
                  None \<Rightarrow> Inl RangeError
                | Some obj \<Rightarrow> Inr (st\<lparr>heap := (heap st)[a := obj]\<rparr>))
          else Inr st
      | _ \<Rightarrow> Inr st)"

section \<open>The data model of \<^verbatim>\<open>MediaType.ts\<close>\<close>

text \<open>
  Modelled from the spec: the shape node (class \<^verbatim>\<open>SchemaModel\<close>, declared in
  \<^verbatim>\<open>./Schema\<close>), with the names \<^verbatim>\<open>MediaType.ts\<close> reads it by: \<^verbatim>\<open>title\<close> (the tag of a
  variant), \<^verbatim>\<open>oneOf\<close> (absent, or the ordered list of variants) and
  \<^verbatim>\<open>discriminatorProp\<close> (absent, or the name of the discriminator field). Everything
  else a schema holds (its fields, items, active selection, raw schema) is the parameter
  \<open>'r\<close>, read only by the functions of \<^verbatim>\<open>./Schema\<close>.
\<close>

datatype 'r SchemaModel =
  SchemaModel (title: string) (oneOf: "'r SchemaModel list option")
    (discriminatorProp: "string option") (rest: 'r)

text \<open>
  Modelled from the spec: the generation context (class \<^verbatim>\<open>OpenAPIParser\<close>, declared in
  \<^verbatim>\<open>../OpenAPIParser\<close>). The one field \<^verbatim>\<open>MediaType.ts\<close> reads is \<^verbatim>\<open>spec\<close>, the
  context document handed to the sample generator; its method \<^verbatim>\<open>deref\<close> is among the
  collaborators below.
\<close>

record OpenAPIParser =
  spec :: jsvalue

text \<open>
  \<^verbatim>\<open>OpenAPIMediaType\<close>, the \<^verbatim>\<open>info\<close> argument of the constructor: an object of the
  document whose four properties are \<^verbatim>\<open>undefined\<close> when absent.
\<close>

record OpenAPIMediaType =
  info_schema :: jsvalue
  info_example :: jsvalue
  info_examples :: jsvalue
  info_encoding :: jsvalue

text \<open>The two options of \<^verbatim>\<open>RedocNormalizedOptions\<close> the constructor reads.\<close>

record RedocNormalizedOptions =
  opt_onlyRequiredInSamples :: bool
  opt_generatedSamplesMaxDepth :: int

text \<open>The options object built for \<^verbatim>\<open>Sampler.sample\<close>.\<close>

record samplerOptions =
  skipReadOnly :: bool
  skipWriteOnly :: bool
  skipNonRequired :: bool
  maxSampleDepth :: int

text \<open>
  The second argument of \<^verbatim>\<open>new ExampleModel\<close>: an example of the document as it
  stands, or the object literal \<^verbatim>\<open>{ value: v }\<close>, which holds \<open>v\<close> itself (for an object,
  the reference).
\<close>

datatype exampleInfo = FromDocument jsvalue | ValueOnly jsvalue

text \<open>
  The fields of class \<^verbatim>\<open>MediaTypeModel\<close>. An optional field is an \<open>option\<close>; \<open>'ex\<close> is
  the class \<^verbatim>\<open>ExampleModel\<close> of \<^verbatim>\<open>./Example\<close>. A map of examples, \<open>string \<rightharpoonup> 'ex\<close>, gives
  the own properties of the object.
\<close>

record ('r, 'ex) MediaTypeModel =
  schema :: "'r SchemaModel option"
  name :: string
  isRequestType :: bool
  onlyRequiredInSamples :: bool
  generatedSamplesMaxDepth :: int
  staticExamples :: "(string \<rightharpoonup> 'ex) option"
  parser :: "OpenAPIParser option"
  encoding :: jsvalue
  shouldGenerateExamples :: bool

section \<open>The collaborators\<close>

text \<open>
  \<^verbatim>\<open>MediaType.ts\<close> calls functions that live elsewhere: the sampler of
  \<^verbatim>\<open>openapi-sampler\<close>, three functions of \<^verbatim>\<open>./Schema\<close>, the constructors of
  \<^verbatim>\<open>SchemaModel\<close> and \<^verbatim>\<open>ExampleModel\<close>, \<^verbatim>\<open>parser.deref\<close>, and \<^verbatim>\<open>isJsonLike\<close> and
  \<^verbatim>\<open>mapValues\<close> of the utilities. They are parameters of the model, so that every
  theorem holds for whatever they compute; so is the runtime's conversion of a string to
  an array length.

  The four calls of the generation pipeline have effects: they read the observable
  selection cells (which registers reactive dependencies), the sampler allocates the
  sample or returns an object that exists already, the patcher changes the sample in
  place and returns nothing, and the sampler need not be deterministic. Each therefore
  takes the state and returns it updated. The sampler may raise: its result is \<open>Inl\<close> the
  error or \<open>Inr\<close> the sample. The other calls return: in the failure taxonomy of the spec
  the sampler is the one collaborator that raises (a stale selection and a mismatch
  while patching are not errors). The collector returns a value of type \<open>'c\<close>.
\<close>

record ('r, 'ex, 'rs, 'c, 'e, 'w) collaborators =
  newSchemaModel :: "OpenAPIParser \<Rightarrow> jsvalue \<Rightarrow> string \<Rightarrow> RedocNormalizedOptions \<Rightarrow> 'r SchemaModel"
  newExampleModel :: "OpenAPIParser \<Rightarrow> exampleInfo \<Rightarrow> string \<Rightarrow> jsvalue \<Rightarrow> 'ex"
  deref_resolved :: "OpenAPIParser \<Rightarrow> jsvalue \<Rightarrow> jsvalue"
  isJsonLike :: "string \<Rightarrow> bool"
  mapValues :: "jsvalue \<Rightarrow> (jsvalue \<Rightarrow> 'ex) \<Rightarrow> (string \<rightharpoonup> 'ex)"
  stringToArrayLength :: "string \<Rightarrow> nat option"
  collectActiveDiscriminatorSelections :: "'r SchemaModel \<Rightarrow> 'w state \<Rightarrow> 'c \<times> 'w state"
  getSchemaWithActiveDiscriminators :: "'r SchemaModel \<Rightarrow> 'w state \<Rightarrow> 'rs \<times> 'w state"
  sample :: "'rs \<Rightarrow> samplerOptions \<Rightarrow> jsvalue \<Rightarrow> 'w state \<Rightarrow> ('e + jsvalue) \<times> 'w state"
  applyDiscriminatorValues :: "jsvalue \<Rightarrow> 'r SchemaModel \<Rightarrow> 'w state \<Rightarrow> 'w state"

section \<open>The constructor\<close>

text \<open>
  \<^verbatim>\<open>info.schema && new SchemaModel(...)\<close> leaves a falsy \<^verbatim>\<open>info.schema\<close> in the field,
  which every later test \<^verbatim>\<open>!this.schema\<close> treats as absent: \<open>None\<close>. The chain
  \<^verbatim>\<open>if (info.examples !== undefined) ... else if (info.example !== undefined) ... else if
  (isJsonLike(name))\<close> sets \<^verbatim>\<open>_staticExamples\<close> and \<^verbatim>\<open>_shouldGenerateExamples\<close>,
  which starts as \<^verbatim>\<open>false\<close>. \<^verbatim>\<open>makeObservable\<close> hands the getter to the reactive layer
  and changes no field.
\<close>

definition MediaTypeModel_new ::
  "('r, 'ex, 'rs, 'c, 'e, 'w) collaborators \<Rightarrow> OpenAPIParser \<Rightarrow> string \<Rightarrow> bool \<Rightarrow>
     OpenAPIMediaType \<Rightarrow> RedocNormalizedOptions \<Rightarrow> ('r, 'ex) MediaTypeModel" where
  "MediaTypeModel_new c p nm isReq info options =
     \<lparr> schema = (if truthy (info_schema info)
                  then Some (newSchemaModel c p (info_schema info) [] options) else None),
       name = nm,
       isRequestType = isReq,
       onlyRequiredInSamples = opt_onlyRequiredInSamples options,
       generatedSamplesMaxDepth = opt_generatedSamplesMaxDepth options,
       staticExamples =
         (if info_examples info \<noteq> JUndefined
          then Some (mapValues c (info_examples info)
                       (\<lambda>example. newExampleModel c p (FromDocument example) nm
                                     (info_encoding info)))
          else if info_example info \<noteq> JUndefined
          then Some (Map.empty(''default'' \<mapsto>
                       newExampleModel c p
                         (ValueOnly (deref_resolved c p (info_example info)))
                         nm (info_encoding info)))
          else None),
       parser = Some p,
       encoding = info_encoding info,
       shouldGenerateExamples =
         (if info_examples info \<noteq> JUndefined then False
          else if info_example info \<noteq> JUndefined then False
          else if isJsonLike c nm then True else False) \<rparr>"

section \<open>Generation\<close>

definition samplerOptionsOf :: "('r, 'ex) MediaTypeModel \<Rightarrow> samplerOptions" where
  "samplerOptionsOf m =
     \<lparr> skipReadOnly = isRequestType m,
       skipWriteOnly = (\<not> isRequestType m),
       skipNonRequired = (isRequestType m \<and> onlyRequiredInSamples m),
       maxSampleDepth = generatedSamplesMaxDepth m \<rparr>"

text \<open>
  \<^verbatim>\<open>this.schema.discriminatorProp && typeof sample === 'object' && sample\<close>, then
  \<^verbatim>\<open>sample[this.schema.discriminatorProp] = subSchema.title\<close>, a write to the object the
  sampler returned. The empty string is falsy, so an empty property name sets nothing.
\<close>

definition setRootDiscriminator ::
  "('r, 'ex, 'rs, 'c, 'e, 'w) collaborators \<Rightarrow> 'r SchemaModel \<Rightarrow> 'r SchemaModel \<Rightarrow> jsvalue \<Rightarrow>
     'w state \<Rightarrow> 'e thrown + 'w state" where
  "setRootDiscriminator c root subSchema smp st =
     (case discriminatorProp root of
        None \<Rightarrow> Inr st
      | Some d \<Rightarrow>
          if d \<noteq> [] \<and> isObject smp
          then writeProp (stringToArrayLength c) smp d (title subSchema) st
          else Inr st)"

text \<open>
  One turn of the loop \<^verbatim>\<open>for (const subSchema of this.schema.oneOf)\<close>, up to the new
  \<^verbatim>\<open>ExampleModel\<close>: resolve, sample, set the root discriminator, patch the nested ones,
  and construct the example from \<^verbatim>\<open>{ value: sample }\<close>, which holds the sample itself. An
  error of the sampler or of the write ends the turn.
\<close>

definition generateVariant ::
  "('r, 'ex, 'rs, 'c, 'e, 'w) collaborators \<Rightarrow> ('r, 'ex) MediaTypeModel \<Rightarrow> OpenAPIParser \<Rightarrow>
     'r SchemaModel \<Rightarrow> 'r SchemaModel \<Rightarrow> 'w state \<Rightarrow> ('e thrown + 'ex) \<times> 'w state" where
  "generateVariant c m p root subSchema st =
     (case getSchemaWithActiveDiscriminators c subSchema st of (resolvedSchema, st1) \<Rightarrow>
       (case sample c resolvedSchema (samplerOptionsOf m) (spec p) st1 of
          (Inl e, st2) \<Rightarrow> (Inl (SamplerError e), st2)
        | (Inr smp, st2) \<Rightarrow>
            (case setRootDiscriminator c root subSchema smp st2 of
               Inl err \<Rightarrow> (Inl err, st2)
             | Inr st3 \<Rightarrow>
                 (Inr (newExampleModel c p (ValueOnly smp) (name m) (encoding m)),
                  applyDiscriminatorValues c smp subSchema st3))))"

text \<open>
  \<^verbatim>\<open>examples[subSchema.title] = new ExampleModel(...)\<close> on the object \<^verbatim>\<open>examples\<close>, which
  started as \<^verbatim>\<open>{}\<close>. Under the name \<^verbatim>\<open>__proto__\<close> the assignment of an object sets the
  prototype of \<^verbatim>\<open>examples\<close> and adds no own property.
\<close>

definition putExample :: "(string \<rightharpoonup> 'ex) \<Rightarrow> string \<Rightarrow> 'ex \<Rightarrow> (string \<rightharpoonup> 'ex)" where
  "putExample examples k ex = (if k = ''__proto__'' then examples else examples(k \<mapsto> ex))"

text \<open>The loop itself, over the variants in order, stopping at the first error.\<close>

fun generateVariants ::
  "('r, 'ex, 'rs, 'c, 'e, 'w) collaborators \<Rightarrow> ('r, 'ex) MediaTypeModel \<Rightarrow> OpenAPIParser \<Rightarrow>
     'r SchemaModel \<Rightarrow> 'r SchemaModel list \<Rightarrow> (string \<rightharpoonup> 'ex) \<Rightarrow> 'w state \<Rightarrow>
     ('e thrown + (string \<rightharpoonup> 'ex)) \<times> 'w state" where
  "generateVariants c m p root [] examples st = (Inr examples, st)"
| "generateVariants c m p root (subSchema # others) examples st =
     (case generateVariant c m p root subSchema st of
        (Inl err, st') \<Rightarrow> (Inl err, st')
      | (Inr ex, st') \<Rightarrow>
          generateVariants c m p root others (putExample examples (title subSchema) ex) st')"

text \<open>
  The path without a root-level \<^verbatim>\<open>oneOf\<close>: resolve the root schema, sample, patch, and
  return the one example \<^verbatim>\<open>default\<close>.
\<close>

definition generateDefault ::
  "('r, 'ex, 'rs, 'c, 'e, 'w) collaborators \<Rightarrow> ('r, 'ex) MediaTypeModel \<Rightarrow> OpenAPIParser \<Rightarrow>
     'r SchemaModel \<Rightarrow> 'w state \<Rightarrow> ('e thrown + (string \<rightharpoonup> 'ex)) \<times> 'w state" where
  "generateDefault c m p root st =
     (case getSchemaWithActiveDiscriminators c root st of (resolvedSchema, st1) \<Rightarrow>
       (case sample c resolvedSchema (samplerOptionsOf m) (spec p) st1 of
          (Inl e, st2) \<Rightarrow> (Inl (SamplerError e), st2)
        | (Inr smp, st2) \<Rightarrow>
            (Inr (Map.empty(''default'' \<mapsto>
               newExampleModel c p (ValueOnly smp) (name m) (encoding m))),
             applyDiscriminatorValues c smp root st2)))"

text \<open>
  The test \<^verbatim>\<open>this.schema.oneOf && this.schema.oneOf.length > 0\<close> as a predicate on the
  root schema.
\<close>

definition hasRootOneOf :: "'r SchemaModel \<Rightarrow> bool" where
  "hasRootOneOf root = (case oneOf root of None \<Rightarrow> False | Some vs \<Rightarrow> 0 < length vs)"

text \<open>
  \<^verbatim>\<open>generateExamples\<close>. The result is \<open>Inl\<close> an error thrown to the caller, or \<open>Inr\<close> the
  value returned: \<open>None\<close> for \<^verbatim>\<open>undefined\<close>, \<open>Some\<close> the map of examples.
  \<open>returnExamples\<close> is the \<^verbatim>\<open>return\<close> of either path: an error passes through, a map
  is the value returned.
\<close>

definition returnExamples ::
  "('e + (string \<rightharpoonup> 'ex)) \<times> 'w \<Rightarrow> ('e + (string \<rightharpoonup> 'ex) option) \<times> 'w" where
  "returnExamples r = (case r of (Inl e, w') \<Rightarrow> (Inl e, w') | (Inr exs, w') \<Rightarrow> (Inr (Some exs), w'))"

definition generateExamples ::
  "('r, 'ex, 'rs, 'c, 'e, 'w) collaborators \<Rightarrow> ('r, 'ex) MediaTypeModel \<Rightarrow> 'w state \<Rightarrow>
     ('e thrown + (string \<rightharpoonup> 'ex) option) \<times> 'w state" where
  "generateExamples c m st =
     (case schema m of
        None \<Rightarrow> (Inr None, st)
      | Some root \<Rightarrow>
         (case parser m of
            None \<Rightarrow> (Inr None, st)
          | Some p \<Rightarrow>
             (case oneOf root of
                None \<Rightarrow> returnExamples (generateDefault c m p root st)
              | Some vs \<Rightarrow>
                  if 0 < length vs
                  then returnExamples (generateVariants c m p root vs Map.empty st)
                  else returnExamples (generateDefault c m p root st))))"

text \<open>
  The getter \<^verbatim>\<open>examples\<close>, as it runs when the reactive layer evaluates it: static
  examples first, then the test that generation can run, then the collector, whose
  return value is dropped, then \<^verbatim>\<open>generateExamples\<close>.
\<close>

definition examples ::
  "('r, 'ex, 'rs, 'c, 'e, 'w) collaborators \<Rightarrow> ('r, 'ex) MediaTypeModel \<Rightarrow> 'w state \<Rightarrow>
     ('e thrown + (string \<rightharpoonup> 'ex) option) \<times> 'w state" where
  "examples c m st =
     (case staticExamples m of
        Some exs \<Rightarrow> (Inr (Some exs), st)
      | None \<Rightarrow>
          if \<not> shouldGenerateExamples m \<or> schema m = None \<or> parser m = None
          then (Inr None, st)
          else (case schema m of
                  None \<Rightarrow> (Inr None, st)
                | Some root \<Rightarrow>
                    (case collectActiveDiscriminatorSelections c root st of
                       (collected, st1) \<Rightarrow> generateExamples c m st1)))"

section \<open>Example collaborators and models\<close>

text \<open>
  Concrete collaborators on which the theorems below are evaluated. The outside state is
  the log of the calls made, in order. The resolver returns the schema it is given. The
  sampler raises on a schema titled \<open>Broken\<close> and otherwise allocates a new object holding
  the schema's payload, an array for a schema titled \<open>List\<close>. The patcher changes
  nothing, and an \<^verbatim>\<open>ExampleModel\<close> is the argument it was constructed from. Only strings
  of digits convert to an array length.
\<close>

definition demoCollaborators ::
  "(int, exampleInfo, int SchemaModel, unit, string, string list) collaborators" where
  "demoCollaborators =
     \<lparr> newSchemaModel = (\<lambda>p raw pointer options. SchemaModel ''Root'' None None 0),
       newExampleModel = (\<lambda>p info nm enc. info),
       deref_resolved = (\<lambda>p v. v),
       isJsonLike = (\<lambda>nm. nm = ''application/json''),
       mapValues = (\<lambda>obj f. if obj = JNull then Map.empty else Map.empty(''one'' \<mapsto> f (JNum 1))),
       stringToArrayLength = (\<lambda>s. if s = [] then None else decimal 0 s),
       collectActiveDiscriminatorSelections =
         (\<lambda>s st. ((), st\<lparr>outside := outside st @ [''collect '' @ title s]\<rparr>)),
       getSchemaWithActiveDiscriminators =
         (\<lambda>s st. (s, st\<lparr>outside := outside st @ [''resolve '' @ title s]\<rparr>)),
       sample =
         (\<lambda>rs opts ctx st.
            if title rs = ''Broken''
            then (Inl ''cannot sample'', st\<lparr>outside := outside st @ [''sample '' @ title rs]\<rparr>)
            else (Inr (JRef (length (heap st))),
                  st\<lparr>heap := heap st @
                         [if title rs = ''List'' then JArray [Some (JNum (rest rs))] []
                          else JObject [(''id'', JNum (rest rs))]],
                     outside := outside st @ [''sample '' @ title rs]\<rparr>)),
       applyDiscriminatorValues =
         (\<lambda>v s st. st\<lparr>outside := outside st @ [''patch '' @ title s]\<rparr>) \<rparr>"

text \<open>A sampler that returns one and the same object, the first of the store, every time.\<close>

definition sharingCollaborators ::
  "(int, exampleInfo, int SchemaModel, unit, string, string list) collaborators" where
  "sharingCollaborators =
     demoCollaborators
       \<lparr> sample := (\<lambda>rs opts ctx st.
                      (Inr (JRef 0), st\<lparr>outside := outside st @ [''sample '' @ title rs]\<rparr>)) \<rparr>"

text \<open>
  A patcher that does at the top of the sample what the spec has the patcher do at every
  polymorphic node: when the schema it is given has variants and a discriminator
  property, it writes the title of the first variant under that property.
\<close>

definition nestingCollaborators ::
  "(int, exampleInfo, int SchemaModel, unit, string, string list) collaborators" where
  "nestingCollaborators =
     demoCollaborators
       \<lparr> applyDiscriminatorValues :=
           (\<lambda>v s st.
              case oneOf s of
                Some (n # ns) \<Rightarrow>
                  (case discriminatorProp s of
                     Some d \<Rightarrow>
                       (case (writeProp (\<lambda>s. None) v d (title n) st :: string thrown + string list state) of
                          Inr st' \<Rightarrow> st'
                        | Inl err \<Rightarrow> st)
                   | None \<Rightarrow> st)
              | _ \<Rightarrow> st) \<rparr>"

definition demoParser :: OpenAPIParser where
  "demoParser = \<lparr> spec = JNull \<rparr>"

definition demoOptions :: RedocNormalizedOptions where
  "demoOptions = \<lparr> opt_onlyRequiredInSamples = False, opt_generatedSamplesMaxDepth = 10 \<rparr>"

definition demoModel :: "int SchemaModel \<Rightarrow> (int, exampleInfo) MediaTypeModel" where
  "demoModel root =
     \<lparr> schema = Some root, name = ''application/json'', isRequestType = True,
       onlyRequiredInSamples = False, generatedSamplesMaxDepth = 10, staticExamples = None,
       parser = Some demoParser, encoding = JUndefined, shouldGenerateExamples = True \<rparr>"

definition emptyState :: "string list state" where
  "emptyState = \<lparr> heap = [], outside = [] \<rparr>"

definition oneObjectState :: "string list state" where
  "oneObjectState = \<lparr> heap = [JObject [(''id'', JNum 0)]], outside = [] \<rparr>"

definition catSchema :: "int SchemaModel" where
  "catSchema = SchemaModel ''Cat'' None None 1"

definition dogSchema :: "int SchemaModel" where
  "dogSchema = SchemaModel ''Dog'' None None 2"

definition secondCatSchema :: "int SchemaModel" where
  "secondCatSchema = SchemaModel ''Cat'' None None 3"

definition brokenSchema :: "int SchemaModel" where
  "brokenSchema = SchemaModel ''Broken'' None None 4"

definition listSchema :: "int SchemaModel" where
  "listSchema = SchemaModel ''List'' None None 5"

definition protoSchema :: "int SchemaModel" where
  "protoSchema = SchemaModel ''__proto__'' None None 6"

definition secondProtoSchema :: "int SchemaModel" where
  "secondProtoSchema = SchemaModel ''__proto__'' None None 8"

definition kittenSchema :: "int SchemaModel" where
  "kittenSchema = SchemaModel ''Kitten'' None None 9"

definition nestedCatSchema :: "int SchemaModel" where
  "nestedCatSchema = SchemaModel ''Cat'' (Some [kittenSchema]) (Some ''petType'') 1"

definition petSchema :: "int SchemaModel list \<Rightarrow> int SchemaModel" where
  "petSchema variants = SchemaModel ''Pet'' (Some variants) (Some ''petType'') 0"

definition keyedSchema :: "string \<Rightarrow> int SchemaModel list \<Rightarrow> int SchemaModel" where
  "keyedSchema d variants = SchemaModel ''Pet'' (Some variants) (Some d) 0"

definition plainSchema :: "int SchemaModel" where
  "plainSchema = SchemaModel ''Plain'' None None 7"

section \<open>Predicates of the theorems on the examples of the variants\<close>




section \<open>Basic facts about the getter and the loop\<close>

lemma examples_static:
  "staticExamples m = Some exs \<Longrightarrow> examples c m st = (Inr (Some exs), st)"
  by (simp add: examples_def)

lemma examples_not_generating:
  "staticExamples m = None \<Longrightarrow>
   \<not> shouldGenerateExamples m \<or> schema m = None \<or> parser m = None \<Longrightarrow>
   examples c m st = (Inr None, st)"
  by (simp add: examples_def)

lemma examples_generating:
  "staticExamples m = None \<Longrightarrow> shouldGenerateExamples m \<Longrightarrow> schema m = Some root \<Longrightarrow>
   parser m = Some p \<Longrightarrow>
   examples c m st = generateExamples c m (snd (collectActiveDiscriminatorSelections c root st))"
  by (simp add: examples_def split: prod.splits)

lemma generateExamples_default:
  "schema m = Some root \<Longrightarrow> parser m = Some p \<Longrightarrow> \<not> hasRootOneOf root \<Longrightarrow>
   generateExamples c m st = returnExamples (generateDefault c m p root st)"
  by (simp add: generateExamples_def hasRootOneOf_def split: option.splits)

lemma generateExamples_variants:
  "schema m = Some root \<Longrightarrow> parser m = Some p \<Longrightarrow> oneOf root = Some vs \<Longrightarrow> vs \<noteq> [] \<Longrightarrow>
   generateExamples c m st = returnExamples (generateVariants c m p root vs Map.empty st)"
  by (simp add: generateExamples_def)

lemma returnExamples_Inr:
  "fst (returnExamples r) = Inr x \<longleftrightarrow> (\<exists>exs. fst r = Inr exs \<and> x = Some exs)"
  by (auto simp: returnExamples_def split: prod.splits sum.splits)

lemma generateVariants_append:
  "generateVariants c m p root (xs @ ys) acc st =
     (case generateVariants c m p root xs acc st of
        (Inl err, st') \<Rightarrow> (Inl err, st')
      | (Inr acc', st') \<Rightarrow> generateVariants c m p root ys acc' st')"
  by (induction xs arbitrary: acc st) (auto split: prod.splits sum.splits)

lemma dom_putExample:
  "dom (putExample exs k ex) = dom exs \<union> ({k} - {''__proto__''})"
  by (auto simp: putExample_def)

lemma generateVariants_dom:
  "generateVariants c m p root vs acc st = (Inr final, st') \<Longrightarrow>
   dom final = dom acc \<union> (set (map title vs) - {''__proto__''})"
proof (induction vs arbitrary: acc st)
  case Nil
  then show ?case by simp
next
  case (Cons v vs)
  from Cons.prems obtain ex st1 where
    "generateVariants c m p root vs (putExample acc (title v) ex) st1 = (Inr final, st')"
    by (auto split: prod.splits sum.splits)
  from Cons.IH [OF this] show ?case
    by (auto simp: dom_putExample)
qed

lemma generateVariants_other:
  "generateVariants c m p root vs acc st = (Inr final, st') \<Longrightarrow> t \<notin> set (map title vs) \<Longrightarrow>
   final t = acc t"
  by (induction vs arbitrary: acc st) (auto simp: putExample_def split: prod.splits sum.splits)


section \<open>Evaluation of the example models\<close>

lemmas demo_defs = demoCollaborators_def sharingCollaborators_def nestingCollaborators_def
  demoParser_def demoOptions_def demoModel_def emptyState_def oneObjectState_def
  catSchema_def dogSchema_def secondCatSchema_def brokenSchema_def listSchema_def
  protoSchema_def secondProtoSchema_def kittenSchema_def nestedCatSchema_def petSchema_def
  keyedSchema_def plainSchema_def

lemmas run_defs = examples_def generateExamples_def generateVariant_def generateDefault_def
  returnExamples_def setRootDiscriminator_def samplerOptionsOf_def writeProp_def
  putExample_def putNamed_def arrayIndex_def digitOf_def propOf_def

section \<open>Static examples\<close>

text \<open>
  C2. A model that holds static examples returns exactly them when \<^verbatim>\<open>examples\<close> is read,
  whatever the collaborators are and with the state untouched: no collector, resolver,
  sampler or patcher runs. A model constructed from an \<^verbatim>\<open>info\<close> with \<^verbatim>\<open>examples\<close> or
  \<^verbatim>\<open>example\<close> holds static examples, for any schema.
\<close>

theorem static_examples_short_circuit:
  "(staticExamples m = Some st \<longrightarrow> examples c m w = (Inr (Some st), w)) \<and>
   (info_examples info \<noteq> JUndefined \<or> info_example info \<noteq> JUndefined \<longrightarrow>
      (\<exists>st'. staticExamples (MediaTypeModel_new c0 p nm isReq info options) = Some st' \<and>
         (\<forall>c' w'. examples c' (MediaTypeModel_new c0 p nm isReq info options) w' =
                    (Inr (Some st'), w'))))"
proof (intro conjI impI)
  assume "staticExamples m = Some st"
  then show "examples c m w = (Inr (Some st), w)" by (rule examples_static)
next
  assume supplied: "info_examples info \<noteq> JUndefined \<or> info_example info \<noteq> JUndefined"
  let ?m = "MediaTypeModel_new c0 p nm isReq info options"
  from supplied have "staticExamples ?m \<noteq> None"
    by (auto simp: MediaTypeModel_new_def)
  then obtain st' where st: "staticExamples ?m = Some st'"
    by blast
  then have "\<forall>c' w'. examples c' ?m w' = (Inr (Some st'), w')"
    by (simp add: examples_static)
  with st show "\<exists>st'. staticExamples ?m = Some st' \<and>
      (\<forall>c' w'. examples c' ?m w' = (Inr (Some st'), w'))" by blast
qed

theorem static_examples_short_circuit_witness:
  "examples demoCollaborators
     (MediaTypeModel_new demoCollaborators demoParser ''application/json'' True
        \<lparr> info_schema = JRef 0, info_example = JUndefined, info_examples = JRef 1,
          info_encoding = JUndefined \<rparr> demoOptions) emptyState =
   (Inr (Some (Map.empty(''one'' \<mapsto> FromDocument (JNum 1)))), emptyState)"
proof -
  let ?info = "\<lparr> info_schema = JRef 0, info_example = JUndefined, info_examples = JRef 1,
          info_encoding = JUndefined \<rparr>"
  let ?m = "MediaTypeModel_new demoCollaborators demoParser ''application/json'' True ?info
              demoOptions :: (int, exampleInfo) MediaTypeModel"
  have st: "staticExamples ?m = Some (Map.empty(''one'' \<mapsto> FromDocument (JNum 1)))"
    by (simp add: MediaTypeModel_new_def demoCollaborators_def)
  from static_examples_short_circuit
         [of ?m "Map.empty(''one'' \<mapsto> FromDocument (JNum 1))" demoCollaborators emptyState]
       st
  show ?thesis by blast
qed

section \<open>No examples\<close>

text \<open>
  C5. With no static examples, when the schema or the parser is missing or generation is
  not enabled, reading \<^verbatim>\<open>examples\<close> returns \<^verbatim>\<open>undefined\<close>: the result is a returned
  value, not an error, and no collaborator has run. \<^verbatim>\<open>generateExamples\<close> has the same
  guard of its own for the schema and the parser.
\<close>

theorem no_examples_when_unavailable:
  assumes "staticExamples m = None"
    and "schema m = None \<or> parser m = None \<or> \<not> shouldGenerateExamples m"
  shows "examples c m w = (Inr None, w) \<and>
         (schema m = None \<or> parser m = None \<longrightarrow> generateExamples c m w = (Inr None, w))"
proof
  from assms show "examples c m w = (Inr None, w)"
    by (intro examples_not_generating) auto
  show "schema m = None \<or> parser m = None \<longrightarrow> generateExamples c m w = (Inr None, w)"
    by (auto simp: generateExamples_def split: option.splits)
qed

theorem no_examples_when_unavailable_witness:
  "examples demoCollaborators ((demoModel plainSchema)\<lparr>parser := None\<rparr>) emptyState =
     (Inr None, emptyState) \<and>
   examples demoCollaborators ((demoModel plainSchema)\<lparr>schema := None\<rparr>) emptyState =
     (Inr None, emptyState) \<and>
   examples demoCollaborators ((demoModel plainSchema)\<lparr>shouldGenerateExamples := False\<rparr>)
     emptyState = (Inr None, emptyState)"
  using no_examples_when_unavailable
          [of "(demoModel plainSchema)\<lparr>parser := None\<rparr>" demoCollaborators emptyState]
        no_examples_when_unavailable
          [of "(demoModel plainSchema)\<lparr>schema := None\<rparr>" demoCollaborators emptyState]
        no_examples_when_unavailable
          [of "(demoModel plainSchema)\<lparr>shouldGenerateExamples := False\<rparr>" demoCollaborators
              emptyState]
  by (simp add: demoModel_def)

section \<open>The single example of a root without variants\<close>

lemma generateDefault_cases:
  "(\<exists>e rs w0 w1. generateDefault c m p root w = (Inl (SamplerError e), w1) \<and>
      sample c rs (samplerOptionsOf m) (spec p) w0 = (Inl e, w1)) \<or>
   (\<exists>ex w1. generateDefault c m p root w = (Inr (Map.empty(''default'' \<mapsto> ex)), w1))"
  by (auto simp: generateDefault_def split: prod.splits sum.splits)

text \<open>
  C3. With no static examples, generation enabled, a schema and a parser, and a root
  without a non-empty \<^verbatim>\<open>oneOf\<close>, reading \<^verbatim>\<open>examples\<close> either throws the error the
  sampler raised or returns a map with the one key \<^verbatim>\<open>default\<close>.
\<close>

theorem single_default_example:
  assumes "staticExamples m = None" and "shouldGenerateExamples m"
    and "schema m = Some root" and "parser m = Some p"
    and "\<not> hasRootOneOf root"
  shows "case fst (examples c m w) of
           Inl err \<Rightarrow> (\<exists>e rs w0 w1. err = SamplerError e \<and>
                         sample c rs (samplerOptionsOf m) (spec p) w0 = (Inl e, w1))
         | Inr r \<Rightarrow> (\<exists>ex. r = Some (Map.empty(''default'' \<mapsto> ex))) \<and>
                    (\<exists>exs. r = Some exs \<and> dom exs = {''default''})"
proof -
  let ?w1 = "snd (collectActiveDiscriminatorSelections c root w)"
  have run: "examples c m w = returnExamples (generateDefault c m p root ?w1)"
    using assms by (simp add: examples_generating generateExamples_default)
  from generateDefault_cases [of c m p root ?w1] show ?thesis
  proof (elim disjE exE conjE)
    fix e rs w0 w1
    assume "generateDefault c m p root ?w1 = (Inl (SamplerError e), w1)"
      and "sample c rs (samplerOptionsOf m) (spec p) w0 = (Inl e, w1)"
    then show ?thesis by (auto simp: run returnExamples_def)
  next
    fix ex w1
    assume "generateDefault c m p root ?w1 = (Inr (Map.empty(''default'' \<mapsto> ex)), w1)"
    then have "fst (examples c m w) = Inr (Some (Map.empty(''default'' \<mapsto> ex)))"
      by (simp add: run returnExamples_def)
    moreover have "dom (Map.empty(''default'' \<mapsto> ex)) = {''default''}"
      by simp
    ultimately show ?thesis by (simp del: dom_fun_upd) blast
  qed
qed

theorem single_default_example_witness:
  "fst (examples demoCollaborators (demoModel plainSchema) emptyState) =
     Inr (Some (Map.empty(''default'' \<mapsto> ValueOnly (JRef 0))))
   \<and> (\<exists>exs. fst (examples demoCollaborators (demoModel plainSchema) emptyState) =
               Inr (Some exs) \<and> dom exs = {''default''})"
proof -
  have ev: "fst (examples demoCollaborators (demoModel plainSchema) emptyState) =
     Inr (Some (Map.empty(''default'' \<mapsto> ValueOnly (JRef 0))))"
    by (simp add: demo_defs run_defs)
  have "\<not> hasRootOneOf plainSchema"
    by (simp add: hasRootOneOf_def plainSchema_def)
  moreover have "staticExamples (demoModel plainSchema) = None"
    and "shouldGenerateExamples (demoModel plainSchema)"
    and "schema (demoModel plainSchema) = Some plainSchema"
    and "parser (demoModel plainSchema) = Some demoParser"
    by (simp_all add: demoModel_def)
  ultimately show ?thesis
    using single_default_example
            [of "demoModel plainSchema" plainSchema demoParser demoCollaborators emptyState]
    by (simp add: ev)
qed

text \<open>
  C6 as the code has it. A root whose \<^verbatim>\<open>oneOf\<close> is the empty list takes the path of a
  root without variants: the read is the single-example path run on the root (the loop
  over the variants is not entered), it never returns \<^verbatim>\<open>undefined\<close>, and when it
  returns, the map has the one key \<^verbatim>\<open>default\<close>.
\<close>

theorem empty_oneOf_default_example:
  assumes "staticExamples m = None" and "shouldGenerateExamples m"
    and "schema m = Some root" and "parser m = Some p"
    and "oneOf root = Some []"
  shows "examples c m w =
           returnExamples (generateDefault c m p root
                             (snd (collectActiveDiscriminatorSelections c root w))) \<and>
         fst (examples c m w) \<noteq> Inr None \<and>
         (\<forall>exs. fst (examples c m w) = Inr (Some exs) \<longrightarrow> dom exs = {''default''})"
proof -
  let ?w1 = "snd (collectActiveDiscriminatorSelections c root w)"
  from assms(5) have "\<not> hasRootOneOf root"
    by (simp add: hasRootOneOf_def)
  then have run: "examples c m w = returnExamples (generateDefault c m p root ?w1)"
    using assms by (simp add: examples_generating generateExamples_default)
  from generateDefault_cases [of c m p root ?w1]
  have "fst (examples c m w) \<noteq> Inr None \<and>
        (\<forall>exs. fst (examples c m w) = Inr (Some exs) \<longrightarrow> dom exs = {''default''})"
  proof (elim disjE exE conjE)
    fix e rs w0 w1
    assume "generateDefault c m p root ?w1 = (Inl (SamplerError e), w1)"
    then show ?thesis by (simp add: run returnExamples_def)
  next
    fix ex w1
    assume "generateDefault c m p root ?w1 = (Inr (Map.empty(''default'' \<mapsto> ex)), w1)"
    then have "fst (examples c m w) = Inr (Some (Map.empty(''default'' \<mapsto> ex)))"
      by (simp add: run returnExamples_def)
    then show ?thesis by auto
  qed
  with run show ?thesis by simp
qed

theorem empty_oneOf_default_example_witness:
  "examples demoCollaborators (demoModel (petSchema [])) emptyState =
     returnExamples (generateDefault demoCollaborators (demoModel (petSchema [])) demoParser
                       (petSchema []) \<lparr> heap = [], outside = [''collect Pet''] \<rparr>) \<and>
   fst (examples demoCollaborators (demoModel (petSchema [])) emptyState) \<noteq> Inr None"
proof -
  have collected:
    "snd (collectActiveDiscriminatorSelections demoCollaborators (petSchema []) emptyState) =
       \<lparr> heap = [], outside = [''collect Pet''] \<rparr>"
    by (simp add: demoCollaborators_def petSchema_def emptyState_def)
  have "staticExamples (demoModel (petSchema [])) = None"
    and "shouldGenerateExamples (demoModel (petSchema []))"
    and "schema (demoModel (petSchema [])) = Some (petSchema [])"
    and "parser (demoModel (petSchema [])) = Some demoParser"
    and "oneOf (petSchema []) = Some []"
    by (simp_all add: demoModel_def petSchema_def)
  from empty_oneOf_default_example [OF this, of demoCollaborators emptyState]
  show ?thesis
    unfolding collected by blast
qed

theorem empty_oneOf_counterexample:
  "fst (examples demoCollaborators (demoModel (petSchema [])) emptyState) =
     Inr (Some (Map.empty(''default'' \<mapsto> ValueOnly (JRef 0)))) \<and>
   fst (examples demoCollaborators (demoModel (petSchema [])) emptyState) \<noteq> Inr None \<and>
   heap (snd (examples demoCollaborators (demoModel (petSchema [])) emptyState)) =
     [JObject [(''id'', JNum 0)]]"
  by (simp add: demo_defs run_defs)

section \<open>The options given to the sampler\<close>

lemma generateVariant_sample_options:
  "generateVariant (c\<lparr>sample := \<lambda>rs opts. sample c rs (samplerOptionsOf m)\<rparr>) m p root sub w =
   generateVariant c m p root sub w"
  by (simp add: generateVariant_def setRootDiscriminator_def
      split: prod.splits sum.splits option.splits)

lemma generateDefault_sample_options:
  "generateDefault (c\<lparr>sample := \<lambda>rs opts. sample c rs (samplerOptionsOf m)\<rparr>) m p root w =
   generateDefault c m p root w"
  by (simp add: generateDefault_def split: prod.splits sum.splits)

lemma generateVariants_sample_options:
  "generateVariants (c\<lparr>sample := \<lambda>rs opts. sample c rs (samplerOptionsOf m)\<rparr>) m p root vs acc w =
   generateVariants c m p root vs acc w"
  by (induction vs arbitrary: acc w)
    (simp_all add: generateVariant_sample_options split: prod.splits sum.splits)

lemma generateExamples_sample_options:
  "generateExamples (c\<lparr>sample := \<lambda>rs opts. sample c rs (samplerOptionsOf m)\<rparr>) m w =
   generateExamples c m w"
  by (simp add: generateExamples_def generateDefault_sample_options
      generateVariants_sample_options split: option.splits)

text \<open>
  C4. The options object built for the sampler has \<^verbatim>\<open>skipReadOnly\<close> equal to the request
  flag, \<^verbatim>\<open>skipWriteOnly\<close> equal to its negation, \<^verbatim>\<open>skipNonRequired\<close> equal to the request
  flag and the only-required option together, and \<^verbatim>\<open>maxSampleDepth\<close> equal to the
  max-depth option; and these are the options of every call of the sampler: a read of
  \<^verbatim>\<open>examples\<close> is the same with a sampler that is handed exactly this record whatever
  it is called with.
\<close>

theorem sampler_options_passed:
  "skipReadOnly (samplerOptionsOf m) = isRequestType m \<and>
   skipWriteOnly (samplerOptionsOf m) = (\<not> isRequestType m) \<and>
   skipNonRequired (samplerOptionsOf m) = (isRequestType m \<and> onlyRequiredInSamples m) \<and>
   maxSampleDepth (samplerOptionsOf m) = generatedSamplesMaxDepth m \<and>
   examples (c\<lparr>sample := \<lambda>rs opts. sample c rs
                \<lparr> skipReadOnly = isRequestType m,
                  skipWriteOnly = (\<not> isRequestType m),
                  skipNonRequired = (isRequestType m \<and> onlyRequiredInSamples m),
                  maxSampleDepth = generatedSamplesMaxDepth m \<rparr>\<rparr>) m w =
   examples c m w"
proof -
  have "examples (c\<lparr>sample := \<lambda>rs opts. sample c rs (samplerOptionsOf m)\<rparr>) m w = examples c m w"
    by (auto simp: examples_def generateExamples_sample_options split: option.splits prod.splits)
  then show ?thesis
    by (simp add: samplerOptionsOf_def)
qed

theorem sampler_options_passed_witness:
  "samplerOptionsOf (demoModel plainSchema) =
     \<lparr> skipReadOnly = True, skipWriteOnly = False, skipNonRequired = False,
       maxSampleDepth = 10 \<rparr> \<and>
   samplerOptionsOf ((demoModel plainSchema)\<lparr>isRequestType := False, onlyRequiredInSamples := True\<rparr>) =
     \<lparr> skipReadOnly = False, skipWriteOnly = True, skipNonRequired = False,
       maxSampleDepth = 10 \<rparr>"
  using sampler_options_passed [of "demoModel plainSchema" demoCollaborators emptyState]
        sampler_options_passed
          [of "(demoModel plainSchema)\<lparr>isRequestType := False, onlyRequiredInSamples := True\<rparr>"
              demoCollaborators emptyState]
  by (simp add: demoModel_def samplerOptionsOf_def)

section \<open>The collector\<close>

lemma generateVariant_collector:
  "generateVariant (c\<lparr>collectActiveDiscriminatorSelections := f\<rparr>) m p root sub w =
   generateVariant c m p root sub w"
  by (simp add: generateVariant_def setRootDiscriminator_def
      split: prod.splits sum.splits option.splits)

lemma generateDefault_collector:
  "generateDefault (c\<lparr>collectActiveDiscriminatorSelections := f\<rparr>) m p root w =
   generateDefault c m p root w"
  by (simp add: generateDefault_def split: prod.splits sum.splits)

lemma generateVariants_collector:
  "generateVariants (c\<lparr>collectActiveDiscriminatorSelections := f\<rparr>) m p root vs acc w =
   generateVariants c m p root vs acc w"
  by (induction vs arbitrary: acc w)
    (simp_all add: generateVariant_collector split: prod.splits sum.splits)

lemma generateExamples_collector:
  "generateExamples (c\<lparr>collectActiveDiscriminatorSelections := f\<rparr>) m w =
   generateExamples c m w"
  by (simp add: generateExamples_def generateDefault_collector generateVariants_collector
      split: option.splits)

text \<open>
  C7. On a read that generates (no static examples, generation enabled, schema and parser
  present), the collector is called on the root schema in the state the read starts in,
  and \<^verbatim>\<open>generateExamples\<close>, with every resolution and sampling, runs in the state the
  collector leaves. \<^verbatim>\<open>generateExamples\<close> itself never calls the collector, and what the
  collector returns is dropped: changing its return value changes nothing of the read.
\<close>

theorem collector_runs_first:
  assumes "staticExamples m = None" and "shouldGenerateExamples m"
    and "schema m = Some root" and "parser m = Some p"
  shows "examples c m w =
           generateExamples c m (snd (collectActiveDiscriminatorSelections c root w)) \<and>
         generateExamples (c\<lparr>collectActiveDiscriminatorSelections := f\<rparr>) m w' =
           generateExamples c m w' \<and>
         examples (c\<lparr>collectActiveDiscriminatorSelections :=
                       \<lambda>s v. (g (fst (collectActiveDiscriminatorSelections c s v)),
                              snd (collectActiveDiscriminatorSelections c s v))\<rparr>) m w =
           examples c m w"
  using assms
  by (simp add: examples_generating [of m root p] generateExamples_collector)

theorem collector_runs_first_witness:
  "examples demoCollaborators (demoModel (petSchema [catSchema, dogSchema])) emptyState =
     generateExamples demoCollaborators (demoModel (petSchema [catSchema, dogSchema]))
       \<lparr> heap = [], outside = [''collect Pet''] \<rparr> \<and>
   outside (snd (generateExamples demoCollaborators (demoModel (petSchema [catSchema, dogSchema]))
          \<lparr> heap = [], outside = [''collect Pet''] \<rparr>)) =
     [''collect Pet'', ''resolve Cat'', ''sample Cat'', ''patch Cat'',
      ''resolve Dog'', ''sample Dog'', ''patch Dog'']"
proof -
  let ?root = "petSchema [catSchema, dogSchema]"
  have collected:
    "snd (collectActiveDiscriminatorSelections demoCollaborators ?root emptyState) =
       \<lparr> heap = [], outside = [''collect Pet''] \<rparr>"
    by (simp add: demoCollaborators_def petSchema_def emptyState_def)
  have "staticExamples (demoModel ?root) = None"
    and "shouldGenerateExamples (demoModel ?root)"
    and "schema (demoModel ?root) = Some ?root"
    and "parser (demoModel ?root) = Some demoParser"
    by (simp_all add: demoModel_def)
  from collector_runs_first [OF this, of demoCollaborators emptyState]
  have "examples demoCollaborators (demoModel ?root) emptyState =
          generateExamples demoCollaborators (demoModel ?root)
            \<lparr> heap = [], outside = [''collect Pet''] \<rparr>"
    unfolding collected by blast
  moreover have "outside (snd (generateExamples demoCollaborators (demoModel ?root)
                    \<lparr> heap = [], outside = [''collect Pet''] \<rparr>)) =
     [''collect Pet'', ''resolve Cat'', ''sample Cat'', ''patch Cat'',
      ''resolve Dog'', ''sample Dog'', ''patch Dog'']"
    by (simp add: demo_defs run_defs)
  ultimately show ?thesis by blast
qed

section \<open>Errors of the sampler\<close>

lemma generateVariants_stops_at_error:
  assumes "generateVariants c m p root pre acc w = (Inr acc', w1)"
    and "generateVariant c m p root sub w1 = (Inl err, w2)"
  shows "generateVariants c m p root (pre @ sub # post) acc w = (Inl err, w2)"
  using assms by (simp add: generateVariants_append)

lemma generateVariant_sampler_error:
  assumes "getSchemaWithActiveDiscriminators c sub w = (rs, w1)"
    and "sample c rs (samplerOptionsOf m) (spec p) w1 = (Inl e, w2)"
  shows "generateVariant c m p root sub w = (Inl (SamplerError e), w2)"
  using assms by (simp add: generateVariant_def)

lemma generateDefault_sampler_error:
  assumes "getSchemaWithActiveDiscriminators c root w = (rs, w1)"
    and "sample c rs (samplerOptionsOf m) (spec p) w1 = (Inl e, w2)"
  shows "generateDefault c m p root w = (Inl (SamplerError e), w2)"
  using assms by (simp add: generateDefault_def)

text \<open>
  C8. On a read that generates, an error \<open>e\<close> raised by the sampler is the outcome of the
  read: the result is \<open>Inl\<close> that error, so no map of examples is returned, and the state
  is the one the failing call of the sampler left, so nothing ran after it (no retry, no
  later variant). This holds on the single-example path, and in the loop over the
  variants for the first variant whose sampling fails, whatever was generated for the
  variants before it.
\<close>

theorem sampler_error_propagates:
  assumes "staticExamples m = None" and "shouldGenerateExamples m"
    and "schema m = Some root" and "parser m = Some p"
  shows "(\<not> hasRootOneOf root \<longrightarrow>
            getSchemaWithActiveDiscriminators c root
              (snd (collectActiveDiscriminatorSelections c root w)) = (rs, w1) \<longrightarrow>
            sample c rs (samplerOptionsOf m) (spec p) w1 = (Inl e, w2) \<longrightarrow>
            examples c m w = (Inl (SamplerError e), w2)) \<and>
         (oneOf root = Some (pre @ sub # post) \<longrightarrow>
            generateVariants c m p root pre Map.empty
              (snd (collectActiveDiscriminatorSelections c root w)) = (Inr acc, w3) \<longrightarrow>
            getSchemaWithActiveDiscriminators c sub w3 = (rs', w4) \<longrightarrow>
            sample c rs' (samplerOptionsOf m) (spec p) w4 = (Inl e', w5) \<longrightarrow>
            examples c m w = (Inl (SamplerError e'), w5))"
proof (intro conjI impI)
  let ?w0 = "snd (collectActiveDiscriminatorSelections c root w)"
  assume "\<not> hasRootOneOf root"
    and "getSchemaWithActiveDiscriminators c root ?w0 = (rs, w1)"
    and "sample c rs (samplerOptionsOf m) (spec p) w1 = (Inl e, w2)"
  then show "examples c m w = (Inl (SamplerError e), w2)"
    using assms
    by (simp add: examples_generating generateExamples_default
        generateDefault_sampler_error returnExamples_def)
next
  let ?w0 = "snd (collectActiveDiscriminatorSelections c root w)"
  assume vs: "oneOf root = Some (pre @ sub # post)"
    and before: "generateVariants c m p root pre Map.empty ?w0 = (Inr acc, w3)"
    and resolved: "getSchemaWithActiveDiscriminators c sub w3 = (rs', w4)"
    and raised: "sample c rs' (samplerOptionsOf m) (spec p) w4 = (Inl e', w5)"
  from resolved raised have "generateVariant c m p root sub w3 = (Inl (SamplerError e'), w5)"
    by (rule generateVariant_sampler_error)
  with before have
    "generateVariants c m p root (pre @ sub # post) Map.empty ?w0 = (Inl (SamplerError e'), w5)"
    by (rule generateVariants_stops_at_error)
  then show "examples c m w = (Inl (SamplerError e'), w5)"
    using assms vs
    by (simp add: examples_generating generateExamples_variants returnExamples_def)
qed

theorem sampler_error_propagates_witness:
  "examples demoCollaborators (demoModel brokenSchema) emptyState =
     (Inl (SamplerError ''cannot sample''),
      \<lparr> heap = [], outside = [''collect Broken'', ''resolve Broken'', ''sample Broken''] \<rparr>) \<and>
   examples demoCollaborators (demoModel (petSchema [catSchema, brokenSchema, dogSchema]))
     emptyState =
     (Inl (SamplerError ''cannot sample''),
      \<lparr> heap = [JObject [(''id'', JNum 1), (''petType'', JStr ''Cat'')]],
        outside = [''collect Pet'', ''resolve Cat'', ''sample Cat'', ''patch Cat'',
                   ''resolve Broken'', ''sample Broken''] \<rparr>)"
proof -
  let ?pet = "petSchema [catSchema, brokenSchema, dogSchema]"
  let ?afterCat = "\<lparr> heap = [JObject [(''id'', JNum 1), (''petType'', JStr ''Cat'')]],
        outside = [''collect Pet'', ''resolve Cat'', ''sample Cat'', ''patch Cat''] \<rparr>"
  have single: "staticExamples (demoModel brokenSchema) = None"
    "shouldGenerateExamples (demoModel brokenSchema)"
    "schema (demoModel brokenSchema) = Some brokenSchema"
    "parser (demoModel brokenSchema) = Some demoParser"
    by (simp_all add: demoModel_def)
  have s1: "\<not> hasRootOneOf brokenSchema"
    by (simp add: hasRootOneOf_def brokenSchema_def)
  have s2: "getSchemaWithActiveDiscriminators demoCollaborators brokenSchema
              (snd (collectActiveDiscriminatorSelections demoCollaborators brokenSchema emptyState)) =
            (brokenSchema, \<lparr> heap = [], outside = [''collect Broken'', ''resolve Broken''] \<rparr>)"
    by (simp add: demoCollaborators_def brokenSchema_def emptyState_def)
  have s3: "sample demoCollaborators brokenSchema (samplerOptionsOf (demoModel brokenSchema))
              (spec demoParser) \<lparr> heap = [], outside = [''collect Broken'', ''resolve Broken''] \<rparr> =
            (Inl ''cannot sample'',
             \<lparr> heap = [], outside = [''collect Broken'', ''resolve Broken'', ''sample Broken''] \<rparr>)"
    by (simp add: demoCollaborators_def brokenSchema_def)
  have first: "examples demoCollaborators (demoModel brokenSchema) emptyState =
     (Inl (SamplerError ''cannot sample''),
      \<lparr> heap = [], outside = [''collect Broken'', ''resolve Broken'', ''sample Broken''] \<rparr>)"
    using sampler_error_propagates [OF single, of demoCollaborators emptyState] s1 s2 s3
    by blast
  have fan: "staticExamples (demoModel ?pet) = None"
    "shouldGenerateExamples (demoModel ?pet)"
    "schema (demoModel ?pet) = Some ?pet"
    "parser (demoModel ?pet) = Some demoParser"
    by (simp_all add: demoModel_def)
  have f1: "oneOf ?pet = Some ([catSchema] @ brokenSchema # [dogSchema])"
    by (simp add: petSchema_def)
  have f2: "generateVariants demoCollaborators (demoModel ?pet) demoParser ?pet [catSchema]
              Map.empty
              (snd (collectActiveDiscriminatorSelections demoCollaborators ?pet emptyState)) =
            (Inr (Map.empty(''Cat'' \<mapsto> ValueOnly (JRef 0))), ?afterCat)"
    by (simp add: demo_defs run_defs)
  have f3: "getSchemaWithActiveDiscriminators demoCollaborators brokenSchema ?afterCat =
            (brokenSchema,
             \<lparr> heap = [JObject [(''id'', JNum 1), (''petType'', JStr ''Cat'')]],
               outside = [''collect Pet'', ''resolve Cat'', ''sample Cat'', ''patch Cat'',
                          ''resolve Broken''] \<rparr>)"
    by (simp add: demoCollaborators_def brokenSchema_def)
  have f4: "sample demoCollaborators brokenSchema (samplerOptionsOf (demoModel ?pet))
              (spec demoParser)
              \<lparr> heap = [JObject [(''id'', JNum 1), (''petType'', JStr ''Cat'')]],
                outside = [''collect Pet'', ''resolve Cat'', ''sample Cat'', ''patch Cat'',
                           ''resolve Broken''] \<rparr> =
            (Inl ''cannot sample'',
             \<lparr> heap = [JObject [(''id'', JNum 1), (''petType'', JStr ''Cat'')]],
               outside = [''collect Pet'', ''resolve Cat'', ''sample Cat'', ''patch Cat'',
                          ''resolve Broken'', ''sample Broken''] \<rparr>)"
    by (simp add: demoCollaborators_def brokenSchema_def)
  have second: "examples demoCollaborators (demoModel ?pet) emptyState =
     (Inl (SamplerError ''cannot sample''),
      \<lparr> heap = [JObject [(''id'', JNum 1), (''petType'', JStr ''Cat'')]],
        outside = [''collect Pet'', ''resolve Cat'', ''sample Cat'', ''patch Cat'',
                   ''resolve Broken'', ''sample Broken''] \<rparr>)"
    using sampler_error_propagates [OF fan, of demoCollaborators emptyState] f1 f2 f3 f4
    by blast
  from first second show ?thesis by blast
qed

section \<open>One example for each title\<close>

lemma generateVariants_last_wins:
  assumes "generateVariants c m p root pre acc w = (Inr acc', w1)"
    and "generateVariant c m p root sub w1 = (Inr ex, w2)"
    and "generateVariants c m p root (pre @ sub # post) acc w = (Inr final, w3)"
    and "title sub \<notin> set (map title post)"
    and "title sub \<noteq> ''__proto__''"
  shows "final (title sub) = Some ex"
proof -
  from assms(1-3) have
    "generateVariants c m p root post (putExample acc' (title sub) ex) w2 = (Inr final, w3)"
    by (simp add: generateVariants_append)
  from generateVariants_other [OF this assms(4)] assms(5) show ?thesis
    by (simp add: putExample_def)
qed

lemma card_titles: "card (set ts - {k}) = length (remdups (filter (\<lambda>t. t \<noteq> k) ts))"
proof -
  have "set ts - {k} = set (filter (\<lambda>t. t \<noteq> k) ts)"
    by auto
  then show ?thesis
    by (simp only: card_set)
qed

lemma card_titles_le: "card (set ts - {k}) \<le> length (remdups ts)"
proof -
  have "card (set ts - {k}) \<le> card (set ts)"
    by (intro card_mono) auto
  then show ?thesis
    by (simp only: card_set)
qed

text \<open>
  C9 as the code has it. When the read returns the examples of the root's variants, the
  entry under a title other than \<^verbatim>\<open>__proto__\<close> is the example generated in the turn of the
  last variant with that title: later turns do not touch it, and earlier examples under
  the same title are overwritten. The keys of the map are the titles of the variants
  other than \<^verbatim>\<open>__proto__\<close>, under which no entry is made, so the map has as many entries
  as there are distinct such titles, and never more than there are distinct titles.
\<close>

theorem shared_title_last_wins:
  assumes "staticExamples m = None" and "shouldGenerateExamples m"
    and "schema m = Some root" and "parser m = Some p"
    and "oneOf root = Some (pre @ sub # post)"
    and "title sub \<notin> set (map title post)"
    and "title sub \<noteq> ''__proto__''"
    and "generateVariants c m p root pre Map.empty
           (snd (collectActiveDiscriminatorSelections c root w)) = (Inr acc, w1)"
    and "generateVariant c m p root sub w1 = (Inr ex, w2)"
    and "fst (examples c m w) = Inr r"
  shows "\<exists>final. r = Some final \<and> final (title sub) = Some ex \<and>
           dom final = set (map title (pre @ sub # post)) - {''__proto__''} \<and>
           card (dom final) =
             length (remdups (filter (\<lambda>t. t \<noteq> ''__proto__'') (map title (pre @ sub # post)))) \<and>
           card (dom final) \<le> length (remdups (map title (pre @ sub # post)))"
proof -
  let ?w0 = "snd (collectActiveDiscriminatorSelections c root w)"
  let ?vs = "pre @ sub # post"
  have run: "examples c m w = returnExamples (generateVariants c m p root ?vs Map.empty ?w0)"
    using assms(1-5) by (simp add: examples_generating generateExamples_variants)
  with assms(10) obtain final where
    loop: "fst (generateVariants c m p root ?vs Map.empty ?w0) = Inr final" and r: "r = Some final"
    by (auto simp: returnExamples_Inr)
  then obtain w3 where
    loop': "generateVariants c m p root ?vs Map.empty ?w0 = (Inr final, w3)"
    by (cases "generateVariants c m p root ?vs Map.empty ?w0") simp
  from generateVariants_last_wins [OF assms(8) assms(9) loop' assms(6) assms(7)]
  have last: "final (title sub) = Some ex" .
  from generateVariants_dom [OF loop']
  have keys: "dom final = set (map title ?vs) - {''__proto__''}" by simp
  have "card (dom final) = length (remdups (filter (\<lambda>t. t \<noteq> ''__proto__'') (map title ?vs)))"
    unfolding keys by (rule card_titles)
  moreover have "card (dom final) \<le> length (remdups (map title ?vs))"
    unfolding keys by (rule card_titles_le)
  ultimately show ?thesis
    using r last keys by blast
qed

theorem shared_title_last_wins_witness:
  "\<exists>final. fst (examples demoCollaborators
                  (demoModel (petSchema [catSchema, dogSchema, secondCatSchema])) emptyState) =
              Inr (Some final) \<and>
     final ''Cat'' = Some (ValueOnly (JRef 2)) \<and>
     dom final = {''Cat'', ''Dog''} \<and> card (dom final) = 2"
proof -
  let ?pet = "petSchema [catSchema, dogSchema, secondCatSchema]"
  let ?afterDog = "\<lparr> heap = [JObject [(''id'', JNum 1), (''petType'', JStr ''Cat'')],
                            JObject [(''id'', JNum 2), (''petType'', JStr ''Dog'')]],
                    outside = [''collect Pet'', ''resolve Cat'', ''sample Cat'', ''patch Cat'',
                               ''resolve Dog'', ''sample Dog'', ''patch Dog''] \<rparr>"
  have gen: "staticExamples (demoModel ?pet) = None"
    "shouldGenerateExamples (demoModel ?pet)"
    "schema (demoModel ?pet) = Some ?pet"
    "parser (demoModel ?pet) = Some demoParser"
    by (simp_all add: demoModel_def)
  have vs: "oneOf ?pet = Some ([catSchema, dogSchema] @ secondCatSchema # [])"
    by (simp add: petSchema_def)
  have last: "title secondCatSchema \<notin> set (map title [])"
    by simp
  have ordinary: "title secondCatSchema \<noteq> ''__proto__''"
    by (simp add: secondCatSchema_def)
  have before: "generateVariants demoCollaborators (demoModel ?pet) demoParser ?pet
           [catSchema, dogSchema] Map.empty
           (snd (collectActiveDiscriminatorSelections demoCollaborators ?pet emptyState)) =
        (Inr (Map.empty(''Cat'' \<mapsto> ValueOnly (JRef 0), ''Dog'' \<mapsto> ValueOnly (JRef 1))),
         ?afterDog)"
    by (simp add: demo_defs run_defs)
  have turn: "generateVariant demoCollaborators (demoModel ?pet) demoParser ?pet secondCatSchema
          ?afterDog =
        (Inr (ValueOnly (JRef 2)),
         \<lparr> heap = [JObject [(''id'', JNum 1), (''petType'', JStr ''Cat'')],
                   JObject [(''id'', JNum 2), (''petType'', JStr ''Dog'')],
                   JObject [(''id'', JNum 3), (''petType'', JStr ''Cat'')]],
           outside = [''collect Pet'', ''resolve Cat'', ''sample Cat'', ''patch Cat'',
                      ''resolve Dog'', ''sample Dog'', ''patch Dog'',
                      ''resolve Cat'', ''sample Cat'', ''patch Cat''] \<rparr>)"
    by (simp add: demo_defs run_defs)
  obtain r where ret: "fst (examples demoCollaborators (demoModel ?pet) emptyState) = Inr r"
    by (simp add: demo_defs run_defs)
  from shared_title_last_wins [OF gen vs last ordinary before turn ret]
  obtain final where result: "r = Some final"
    and cat: "final (title secondCatSchema) = Some (ValueOnly (JRef 2))"
    and keys: "dom final =
           set (map title ([catSchema, dogSchema] @ secondCatSchema # [])) - {''__proto__''}"
    by blast
  have titles: "set (map title ([catSchema, dogSchema] @ secondCatSchema # [])) - {''__proto__''} =
          {''Cat'', ''Dog''}"
    by (simp add: catSchema_def dogSchema_def secondCatSchema_def insert_Diff_if insert_commute)
  have "title secondCatSchema = ''Cat''"
    by (simp add: secondCatSchema_def)
  with cat have "final ''Cat'' = Some (ValueOnly (JRef 2))"
    by simp
  moreover from keys titles have "dom final = {''Cat'', ''Dog''}"
    by (simp only:)
  moreover from this have "card (dom final) = 2"
    by simp
  moreover from ret result
  have "fst (examples demoCollaborators (demoModel ?pet) emptyState) = Inr (Some final)"
    by (simp only:)
  ultimately show ?thesis by blast
qed

theorem shared_proto_title_counterexample:
  "title protoSchema = ''__proto__'' \<and> title secondProtoSchema = ''__proto__'' \<and>
   oneOf (petSchema [protoSchema, secondProtoSchema]) = Some [protoSchema, secondProtoSchema] \<and>
   fst (examples demoCollaborators (demoModel (petSchema [protoSchema, secondProtoSchema]))
          emptyState) = Inr (Some Map.empty)"
  by (simp add: demo_defs run_defs)

section \<open>The root discriminator of an example\<close>














section \<open>When generation is enabled\<close>

text \<open>
  C10. The constructor enables generation exactly when neither \<^verbatim>\<open>info.examples\<close> nor
  \<^verbatim>\<open>info.example\<close> is given and the name is JSON-like. A model constructed with neither,
  under a name that is not JSON-like, returns \<^verbatim>\<open>undefined\<close> when \<^verbatim>\<open>examples\<close> is read,
  whatever its schema and with its parser present. When \<^verbatim>\<open>info.examples\<close> is given, the
  static examples are made from it alone: \<^verbatim>\<open>info.example\<close> has no influence on the model.
\<close>

theorem generation_enabled_iff_json_without_static:
  "(shouldGenerateExamples (MediaTypeModel_new c p nm isReq info options) \<longleftrightarrow>
      info_examples info = JUndefined \<and> info_example info = JUndefined \<and> isJsonLike c nm) \<and>
   (info_examples info = JUndefined \<and> info_example info = JUndefined \<and> \<not> isJsonLike c nm \<longrightarrow>
      parser (MediaTypeModel_new c p nm isReq info options) = Some p \<and>
      examples c' (MediaTypeModel_new c p nm isReq info options) w = (Inr None, w)) \<and>
   (info_examples info \<noteq> JUndefined \<longrightarrow>
      staticExamples (MediaTypeModel_new c p nm isReq info options) =
        Some (mapValues c (info_examples info)
                (\<lambda>example. newExampleModel c p (FromDocument example) nm (info_encoding info))) \<and>
      MediaTypeModel_new c p nm isReq (info\<lparr>info_example := x\<rparr>) options =
        MediaTypeModel_new c p nm isReq info options)"
proof (intro conjI impI)
  show "shouldGenerateExamples (MediaTypeModel_new c p nm isReq info options) \<longleftrightarrow>
      info_examples info = JUndefined \<and> info_example info = JUndefined \<and> isJsonLike c nm"
    by (simp add: MediaTypeModel_new_def)
next
  assume off: "info_examples info = JUndefined \<and> info_example info = JUndefined \<and>
                 \<not> isJsonLike c nm"
  then show "parser (MediaTypeModel_new c p nm isReq info options) = Some p"
    by (simp add: MediaTypeModel_new_def)
  from off have "staticExamples (MediaTypeModel_new c p nm isReq info options) = None"
    and "\<not> shouldGenerateExamples (MediaTypeModel_new c p nm isReq info options)"
    by (simp_all add: MediaTypeModel_new_def)
  then show "examples c' (MediaTypeModel_new c p nm isReq info options) w = (Inr None, w)"
    by (simp add: examples_not_generating)
next
  assume plural: "info_examples info \<noteq> JUndefined"
  then show "staticExamples (MediaTypeModel_new c p nm isReq info options) =
        Some (mapValues c (info_examples info)
                (\<lambda>example. newExampleModel c p (FromDocument example) nm (info_encoding info)))"
    by (simp add: MediaTypeModel_new_def)
  from plural show "MediaTypeModel_new c p nm isReq (info\<lparr>info_example := x\<rparr>) options =
        MediaTypeModel_new c p nm isReq info options"
    by (simp add: MediaTypeModel_new_def)
qed

theorem generation_enabled_iff_json_without_static_witness:
  "shouldGenerateExamples
     (MediaTypeModel_new demoCollaborators demoParser ''application/json'' True
        \<lparr> info_schema = JRef 0, info_example = JUndefined, info_examples = JUndefined,
          info_encoding = JUndefined \<rparr> demoOptions) \<and>
   examples demoCollaborators
     (MediaTypeModel_new demoCollaborators demoParser ''text/plain'' True
        \<lparr> info_schema = JRef 0, info_example = JUndefined, info_examples = JUndefined,
          info_encoding = JUndefined \<rparr> demoOptions) emptyState = (Inr None, emptyState) \<and>
   staticExamples
     (MediaTypeModel_new demoCollaborators demoParser ''application/json'' True
        \<lparr> info_schema = JRef 0, info_example = JNum 5, info_examples = JRef 1,
          info_encoding = JUndefined \<rparr> demoOptions) =
     Some (Map.empty(''one'' \<mapsto> FromDocument (JNum 1)))"
proof -
  let ?none = "\<lparr> info_schema = JRef 0, info_example = JUndefined,
                 info_examples = JUndefined, info_encoding = JUndefined \<rparr>"
  let ?both = "\<lparr> info_schema = JRef 0, info_example = JNum 5, info_examples = JRef 1,
                 info_encoding = JUndefined \<rparr>"
  have json: "isJsonLike demoCollaborators ''application/json''"
    and plain: "\<not> isJsonLike demoCollaborators ''text/plain''"
    by (simp_all add: demoCollaborators_def)
  have "mapValues demoCollaborators (info_examples ?both)
          (\<lambda>example. newExampleModel demoCollaborators demoParser (FromDocument example)
                        ''application/json'' (info_encoding ?both)) =
        Map.empty(''one'' \<mapsto> FromDocument (JNum 1))"
    by (simp add: demoCollaborators_def)
  then show ?thesis
    using generation_enabled_iff_json_without_static
            [of demoCollaborators demoParser "''application/json''" True ?none demoOptions]
          generation_enabled_iff_json_without_static
            [of demoCollaborators demoParser "''text/plain''" True ?none demoOptions
                demoCollaborators emptyState]
          generation_enabled_iff_json_without_static
            [of demoCollaborators demoParser "''application/json''" True ?both demoOptions]
          json plain
    by simp
qed



end
